theory Spec2Isabelle
  imports Main
begin

section \<open>The types the selector inspects\<close>

text \<open>
  \<^verbatim>\<open>usServiceTrackerCustomizer.h\<close> selects one of four class template specialisations
  from the template arguments \<^verbatim>\<open>S\<close> (service type), \<^verbatim>\<open>T\<close> (tracked type) and the
  defaulted \<^verbatim>\<open>Enable\<close>. The arguments are C++ types; the selection looks only at their
  shape: whether a type is \<^verbatim>\<open>void\<close>, whether it is a pointer and to what, and for the
  remaining types at three standard type traits. Object types other than pointers are
  represented by their name. Cv-qualified and reference types are not represented.
\<close>

datatype cpp_type = Void | Named string | Pointer cpp_type

text \<open>\<^verbatim>\<open>std::is_pointer<T>::value\<close> and \<^verbatim>\<open>std::is_same<A,B>::value\<close>.\<close>

fun is_pointer :: "cpp_type \<Rightarrow> bool" where
  "is_pointer (Pointer _) = True"
| "is_pointer _ = False"

definition is_same :: "cpp_type \<Rightarrow> cpp_type \<Rightarrow> bool" where
  "is_same A B = (A = B)"

text \<open>
  The header does not define the remaining traits; their values depend on the program's
  own types, so they are a parameter of the selector:
  \<^verbatim>\<open>std::is_constructible<T>\<close>, \<^verbatim>\<open>std::is_convertible<T,bool>\<close> and
  \<^verbatim>\<open>std::is_constructible<bool,T>\<close>.
\<close>

record std_traits =
  is_constructible :: "cpp_type \<Rightarrow> bool"
  is_convertible_bool :: "cpp_type \<Rightarrow> bool"
  is_constructible_bool :: "cpp_type \<Rightarrow> bool"

text \<open>
  \<^verbatim>\<open>std::enable_if<B>::type\<close>: the member \<^verbatim>\<open>type\<close> exists only when \<^verbatim>\<open>B\<close> is true, and
  then it is \<^verbatim>\<open>void\<close>. When it does not exist, substitution fails and the partial
  specialisation that names it is not a candidate.
\<close>

definition enable_if :: "bool \<Rightarrow> cpp_type option" where
  "enable_if B = (if B then Some Void else None)"

section \<open>The selection predicates\<close>

text \<open>
  The conditions under which each specialisation applies, as written in the
  specialisations' argument lists (lines 85-86, 170-171, 214-216, 258-259).
\<close>

definition cond_a :: "cpp_type \<Rightarrow> cpp_type \<Rightarrow> bool" where
  "cond_a S T = (is_pointer T \<and> \<not> is_same (Pointer S) T)"

definition cond_b :: "cpp_type \<Rightarrow> cpp_type \<Rightarrow> bool" where
  "cond_b S T = (T = Pointer S)"

definition cond_c :: "std_traits \<Rightarrow> cpp_type \<Rightarrow> cpp_type \<Rightarrow> bool" where
  "cond_c tr S T =
     (\<not> is_pointer T \<and> is_constructible tr T \<and>
      (is_convertible_bool tr T \<or> is_constructible_bool tr T))"

definition cond_d :: "cpp_type \<Rightarrow> cpp_type \<Rightarrow> bool" where
  "cond_d S T = (S = Void \<and> T = Pointer Void)"

datatype variant = Variant_a | Variant_b | Variant_c | Variant_d

text \<open>
  Whether the partial specialisation \<open>v\<close> matches the argument list \<^verbatim>\<open><S, T, E>\<close>.
  (a) and (c) have \<^verbatim>\<open>enable_if<...>::type\<close> as their third argument, (b) has
  \<^verbatim>\<open>void\<close>. (d) is an explicit specialisation, not a partial one.
\<close>

fun partial_matches :: "std_traits \<Rightarrow> cpp_type \<Rightarrow> cpp_type \<Rightarrow> cpp_type \<Rightarrow> variant \<Rightarrow> bool" where
  "partial_matches tr S T E Variant_a = (enable_if (cond_a S T) = Some E)"
| "partial_matches tr S T E Variant_b = (cond_b S T \<and> E = Void)"
| "partial_matches tr S T E Variant_c = (enable_if (cond_c tr S T) = Some E)"
| "partial_matches tr S T E Variant_d = False"

definition explicit_matches :: "cpp_type \<Rightarrow> cpp_type \<Rightarrow> cpp_type \<Rightarrow> bool" where
  "explicit_matches S T E = (cond_d S T \<and> E = Void)"

section \<open>Resolution of \<^verbatim>\<open>ServiceTrackerCustomizer<S, T, Enable>\<close>\<close>

datatype template_def = Primary_template | Specialization variant

datatype build_error = ambiguous_partial_specialization | no_member_named string

text \<open>
  An explicit specialisation for exactly these arguments is used as it is. Otherwise the
  matching partial specialisations are collected: none selects the primary template, one
  selects that specialisation. C++ orders several matching partial specialisations by
  specialisation and rejects the program when none is most specialised; the model
  rejects every such case.
\<close>

definition ServiceTrackerCustomizer ::
  "std_traits \<Rightarrow> cpp_type \<Rightarrow> cpp_type \<Rightarrow> cpp_type \<Rightarrow> build_error + template_def" where
  "ServiceTrackerCustomizer tr S T E =
     (if explicit_matches S T E then Inr (Specialization Variant_d)
      else case filter (partial_matches tr S T E) [Variant_a, Variant_b, Variant_c] of
             [] \<Rightarrow> Inr Primary_template
           | [v] \<Rightarrow> Inr (Specialization v)
           | _ \<Rightarrow> Inl ambiguous_partial_specialization)"

text \<open>
  The primary template declares \<^verbatim>\<open>class T = S*, class Enable = void\<close>: the forms with
  two arguments and with one.
\<close>

definition ServiceTrackerCustomizer2 ::
  "std_traits \<Rightarrow> cpp_type \<Rightarrow> cpp_type \<Rightarrow> build_error + template_def" where
  "ServiceTrackerCustomizer2 tr S T = ServiceTrackerCustomizer tr S T Void"

definition ServiceTrackerCustomizer1 ::
  "std_traits \<Rightarrow> cpp_type \<Rightarrow> build_error + template_def" where
  "ServiceTrackerCustomizer1 tr S = ServiceTrackerCustomizer tr S (Pointer S) Void"

text \<open>
  The names each definition declares itself, in the order of the source. The primary
  template's body is empty (lines 33-34); the four specialisations declare the same
  names: \<^verbatim>\<open>TypeTraits\<close>, five type aliases, a virtual destructor and the three observer
  methods.
\<close>

fun declared_members :: "template_def \<Rightarrow> string list" where
  "declared_members Primary_template = []"
| "declared_members (Specialization v) =
     [''TypeTraits'', ''ServiceType'', ''TrackedType'', ''TrackedReturnType'',
      ''TrackedArgType'', ''ServiceReferenceType'', ''~ServiceTrackerCustomizer'',
      ''AddingService'', ''ModifiedService'', ''RemovedService'']"

text \<open>
  The names every class has without declaring them: its own name, injected into its
  scope, the copy assignment operator, and the destructor where the class declares
  none.
\<close>

fun implicit_members :: "template_def \<Rightarrow> string list" where
  "implicit_members Primary_template =
     [''ServiceTrackerCustomizer'', ''~ServiceTrackerCustomizer'', ''operator='']"
| "implicit_members (Specialization v) = [''ServiceTrackerCustomizer'', ''operator='']"

definition members :: "template_def \<Rightarrow> string list" where
  "members d = declared_members d @ implicit_members d"

text \<open>
  The names that make up a behaviour bundle and its observer interface: what the
  specialisations declare, the destructor apart.
\<close>

definition bundle_names :: "string list" where
  "bundle_names =
     [''TypeTraits'', ''ServiceType'', ''TrackedType'', ''TrackedReturnType'',
      ''TrackedArgType'', ''ServiceReferenceType'',
      ''AddingService'', ''ModifiedService'', ''RemovedService'']"

text \<open>
  Lookup of the name \<open>n\<close> in the scope of a definition: it fails when the definition
  has no member of that name.
\<close>

definition member_lookup :: "template_def \<Rightarrow> string \<Rightarrow> build_error + unit" where
  "member_lookup d n = (if n \<in> set (members d) then Inr () else Inl (no_member_named n))"

text \<open>
  The qualified name \<^verbatim>\<open>ServiceTrackerCustomizer<S,T>::n\<close> in a program: the template-id is
  resolved first, then \<open>n\<close> is looked up in the selected definition.
\<close>

definition qualified_lookup ::
  "std_traits \<Rightarrow> cpp_type \<Rightarrow> cpp_type \<Rightarrow> string \<Rightarrow> build_error + unit" where
  "qualified_lookup tr S T n =
     (case ServiceTrackerCustomizer2 tr S T of
        Inl e \<Rightarrow> Inl e
      | Inr d \<Rightarrow> member_lookup d n)"

text \<open>
  Trait values for a few types of the standard library and the language, used where a
  concrete program is needed: \<^verbatim>\<open>void\<close> is not constructible, every pointer is
  constructible and converts to \<^verbatim>\<open>bool\<close>, and so do \<^verbatim>\<open>bool\<close>, \<^verbatim>\<open>int\<close> and
  \<^verbatim>\<open>std::true_type\<close>; \<^verbatim>\<open>std::string\<close> is constructible and does not convert.
\<close>

definition example_traits :: std_traits where
  "example_traits =
     \<lparr> is_constructible = (\<lambda>T. case T of
          Void \<Rightarrow> False | Pointer _ \<Rightarrow> True
        | Named n \<Rightarrow> n \<in> set [''bool'', ''int'', ''std::true_type'', ''std::string'']),
       is_convertible_bool = (\<lambda>T. case T of
          Void \<Rightarrow> False | Pointer _ \<Rightarrow> True
        | Named n \<Rightarrow> n \<in> set [''bool'', ''int'', ''std::true_type'']),
       is_constructible_bool = (\<lambda>T. case T of
          Void \<Rightarrow> False | Pointer _ \<Rightarrow> True
        | Named n \<Rightarrow> n \<in> set [''bool'', ''int'', ''std::true_type'']) \<rparr>"

section \<open>Values of the tracked types\<close>

text \<open>A raw pointer to a service object: \<^verbatim>\<open>nullptr\<close> or the address of an object.\<close>

datatype handle = nullptr | Object nat

text \<open>
  Modelled from the spec: \<^verbatim>\<open>InterfaceMap\<close> is declared outside this header. It is an
  associative value from interface names to instance handles with the operations
  \<^verbatim>\<open>empty()\<close> and \<^verbatim>\<open>clear()\<close>, and a default constructor that makes the empty map.
\<close>

type_synonym InterfaceMap = "(string \<times> handle) list"

definition InterfaceMap_ctor :: InterfaceMap where
  "InterfaceMap_ctor = []"

definition InterfaceMap_empty :: "InterfaceMap \<Rightarrow> bool" where
  "InterfaceMap_empty m = (m = [])"

definition InterfaceMap_clear :: "InterfaceMap \<Rightarrow> InterfaceMap" where
  "InterfaceMap_clear m = []"

text \<open>
  \<^verbatim>\<open>detail::ServiceArg<S>::type\<close> is \<^verbatim>\<open>S*\<close>, and \<^verbatim>\<open>const InterfaceMap&\<close> for
  \<^verbatim>\<open>S = void\<close>: the argument of the conversions of variants (a) and (c).
\<close>

datatype ServiceArg = Service_handle handle | Service_map InterfaceMap

text \<open>\<^verbatim>\<open>std::runtime_error\<close> with its message.\<close>

datatype error = runtime_error string

text \<open>
  In variant (c) the tracked type \<^verbatim>\<open>T\<close> is any type with a default constructor and a
  conversion to \<^verbatim>\<open>bool\<close>. The bundle uses exactly these two operations of \<^verbatim>\<open>T\<close>:
  \<^verbatim>\<open>T()\<close> and \<^verbatim>\<open>static_cast<bool>(t)\<close>.
\<close>

record 'T tracked_ops =
  default_ctor :: "'T"
  to_bool :: "'T \<Rightarrow> bool"

text \<open>\<^verbatim>\<open>bool\<close> and the empty class \<^verbatim>\<open>std::true_type\<close> as tracked types.\<close>

definition bool_ops :: "bool tracked_ops" where
  "bool_ops = \<lparr> default_ctor = False, to_bool = (\<lambda>b. b) \<rparr>"

definition true_type_ops :: "unit tracked_ops" where
  "true_type_ops = \<lparr> default_ctor = (), to_bool = (\<lambda>_. True) \<rparr>"

section \<open>The four \<^verbatim>\<open>TypeTraits\<close> bundles\<close>

text \<open>
  A function taking \<^verbatim>\<open>T&\<close> and assigning to it returns the new value of its argument.
\<close>

subsection \<open>Variant (a): a pointer other than \<^verbatim>\<open>S*\<close> (lines 89-115)\<close>

definition IsValid_a :: "handle \<Rightarrow> bool" where
  "IsValid_a t = (t \<noteq> nullptr)"

definition DefaultValue_a :: handle where
  "DefaultValue_a = nullptr"

definition Dispose_a :: "handle \<Rightarrow> handle" where
  "Dispose_a t = nullptr"

definition ConvertToTrackedType_a :: "ServiceArg \<Rightarrow> error + handle" where
  "ConvertToTrackedType_a arg =
     Inl (runtime_error
       ''A custom ServiceTrackerCustomizer instance is required for custom tracked objects.'')"

subsection \<open>Variant (b): \<^verbatim>\<open>S*\<close> (lines 174-200)\<close>

definition IsValid_b :: "handle \<Rightarrow> bool" where
  "IsValid_b t = (t \<noteq> nullptr)"

definition DefaultValue_b :: handle where
  "DefaultValue_b = nullptr"

definition Dispose_b :: "handle \<Rightarrow> handle" where
  "Dispose_b t = nullptr"

definition ConvertToTrackedType_b :: "handle \<Rightarrow> handle" where
  "ConvertToTrackedType_b s = s"

subsection \<open>Variant (c): a value convertible to \<^verbatim>\<open>bool\<close> (lines 219-244)\<close>

definition IsValid_c :: "'T tracked_ops \<Rightarrow> 'T \<Rightarrow> bool" where
  "IsValid_c ops t = to_bool ops t"

definition DefaultValue_c :: "'T tracked_ops \<Rightarrow> 'T" where
  "DefaultValue_c ops = default_ctor ops"

definition Dispose_c :: "'T \<Rightarrow> 'T" where
  "Dispose_c t = t"

definition ConvertToTrackedType_c :: "ServiceArg \<Rightarrow> error + 'T" where
  "ConvertToTrackedType_c arg =
     Inl (runtime_error
       ''A custom ServiceTrackerCustomizer instance is required for custom tracked objects.'')"

subsection \<open>Variant (d): \<^verbatim>\<open>void\<close> and \<^verbatim>\<open>void*\<close> (lines 262-288)\<close>

definition IsValid_d :: "InterfaceMap \<Rightarrow> bool" where
  "IsValid_d t = (\<not> InterfaceMap_empty t)"

definition DefaultValue_d :: InterfaceMap where
  "DefaultValue_d = InterfaceMap_ctor"

definition Dispose_d :: "InterfaceMap \<Rightarrow> InterfaceMap" where
  "Dispose_d t = InterfaceMap_clear t"

definition ConvertToTrackedType_d :: "InterfaceMap \<Rightarrow> InterfaceMap" where
  "ConvertToTrackedType_d im = im"

subsection \<open>Variant (d) on objects in memory\<close>

text \<open>
  \<^verbatim>\<open>ConvertToTrackedType\<close> takes \<^verbatim>\<open>const InterfaceMap&\<close> and returns \<^verbatim>\<open>InterfaceMap\<close>
  by value; \<^verbatim>\<open>Dispose\<close> takes \<^verbatim>\<open>InterfaceMap&\<close> and clears the object referred to.
  A store maps the address of each live map object to its value. A reference is the
  address of a live object; on an address without an object nothing is read or written.
\<close>

type_synonym addr = nat
type_synonym store = "addr \<Rightarrow> InterfaceMap option"

definition ConvertToTrackedType_d_ref :: "addr \<Rightarrow> store \<Rightarrow> InterfaceMap option" where
  "ConvertToTrackedType_d_ref im \<sigma> = map_option ConvertToTrackedType_d (\<sigma> im)"

definition Dispose_d_ref :: "addr \<Rightarrow> store \<Rightarrow> store" where
  "Dispose_d_ref t \<sigma> = (case \<sigma> t of None \<Rightarrow> \<sigma> | Some m \<Rightarrow> \<sigma>(t \<mapsto> Dispose_d m))"

text \<open>
  \<^verbatim>\<open>InterfaceMap r = ConvertToTrackedType(im);\<close> the returned value initialises a new
  object at the address \<open>r\<close>.
\<close>

definition init_from_ConvertToTrackedType_d :: "addr \<Rightarrow> addr \<Rightarrow> store \<Rightarrow> store" where
  "init_from_ConvertToTrackedType_d r im \<sigma> =
     (case ConvertToTrackedType_d_ref im \<sigma> of None \<Rightarrow> \<sigma> | Some v \<Rightarrow> \<sigma>(r \<mapsto> v))"

text \<open>A store with one interface map, registered under two interface names.\<close>

definition example_store :: store where
  "example_store = (\<lambda>_. None)(0 \<mapsto> [(''IFoo'', Object 3), (''IBar'', Object 3)])"

section \<open>The selector\<close>

text \<open>
  C1, as amended. The conditions (a), (b) and (c) exclude each other, and (d) excludes (a)
  and (c). (b) and (d) hold together, at \<^verbatim>\<open>(void, void*)\<close> and only there; for that pair
  the explicit specialisation (d) is the one selected. For no argument list is the
  selection ambiguous: at most one definition is bound.
\<close>

theorem selection_conditions_overlap_only_b_d:
  "\<not> (cond_a S T \<and> cond_b S T) \<and>
   \<not> (cond_a S T \<and> cond_c tr S T) \<and>
   \<not> (cond_a S T \<and> cond_d S T) \<and>
   \<not> (cond_b S T \<and> cond_c tr S T) \<and>
   \<not> (cond_c tr S T \<and> cond_d S T) \<and>
   ((cond_b S T \<and> cond_d S T) = (S = Void \<and> T = Pointer Void)) \<and>
   ServiceTrackerCustomizer2 tr Void (Pointer Void) = Inr (Specialization Variant_d) \<and>
   ServiceTrackerCustomizer tr S T E \<noteq> Inl ambiguous_partial_specialization"
proof -
  have excl: "\<not> (cond_a S T \<and> cond_b S T)" "\<not> (cond_a S T \<and> cond_c tr S T)"
    "\<not> (cond_a S T \<and> cond_d S T)" "\<not> (cond_b S T \<and> cond_c tr S T)"
    "\<not> (cond_c tr S T \<and> cond_d S T)"
    by (auto simp: cond_a_def cond_b_def cond_c_def cond_d_def is_same_def)
  have bd: "(cond_b S T \<and> cond_d S T) = (S = Void \<and> T = Pointer Void)"
    by (auto simp: cond_b_def cond_d_def)
  have d: "ServiceTrackerCustomizer2 tr Void (Pointer Void) = Inr (Specialization Variant_d)"
    by (simp add: ServiceTrackerCustomizer2_def ServiceTrackerCustomizer_def
        explicit_matches_def cond_d_def)
  have amb: "ServiceTrackerCustomizer tr S T E \<noteq> Inl ambiguous_partial_specialization"
    using excl
    by (auto simp: ServiceTrackerCustomizer_def enable_if_def)
  from excl bd d amb show ?thesis by blast
qed

text \<open>
  C1 as stated fails: for \<^verbatim>\<open>S = void\<close>, \<^verbatim>\<open>T = void*\<close> both (b), \<^verbatim>\<open>T\<close> is \<^verbatim>\<open>S*\<close>, and (d)
  hold.
\<close>

theorem selection_conditions_b_d_overlap:
  "cond_b Void (Pointer Void) \<and> cond_d Void (Pointer Void)"
  by (simp add: cond_b_def cond_d_def)

lemma bundle_names_declared:
  "set (declared_members (Specialization v)) =
     set bundle_names \<union> {''~ServiceTrackerCustomizer''}"
  by (auto simp: bundle_names_def)

lemma bundle_names_found_in_specialization:
  "n \<in> set bundle_names \<Longrightarrow> member_lookup (Specialization v) n = Inr ()"
  by (auto simp: member_lookup_def members_def bundle_names_def)

lemma bundle_names_not_in_primary:
  "n \<in> set bundle_names \<Longrightarrow> member_lookup Primary_template n = Inl (no_member_named n)"
  by (auto simp: member_lookup_def members_def bundle_names_def)

text \<open>
  C8. When none of the four conditions holds for \<^verbatim>\<open>(S, T)\<close>, no bundle is bound: the
  primary template is selected, and it declares nothing, no \<^verbatim>\<open>TypeTraits\<close>, no type
  alias, no observer method. Every name of a bundle, written
  \<^verbatim>\<open>ServiceTrackerCustomizer<S,T>::n\<close>, then fails to resolve when the program is built,
  and so does a tracker for that pair, which takes its types from these names.
\<close>

theorem unmatched_pair_selects_empty_primary:
  assumes "\<not> cond_a S T" and "\<not> cond_b S T" and "\<not> cond_c tr S T" and "\<not> cond_d S T"
  shows "ServiceTrackerCustomizer2 tr S T = Inr Primary_template \<and>
         declared_members Primary_template = [] \<and>
         (\<forall>n \<in> set bundle_names. qualified_lookup tr S T n = Inl (no_member_named n))"
proof -
  have sel: "ServiceTrackerCustomizer2 tr S T = Inr Primary_template"
    using assms
    by (simp add: ServiceTrackerCustomizer2_def ServiceTrackerCustomizer_def
        explicit_matches_def enable_if_def)
  have look: "qualified_lookup tr S T n = Inl (no_member_named n)"
    if "n \<in> set bundle_names" for n
    using that by (simp add: qualified_lookup_def sel bundle_names_not_in_primary)
  from sel look show ?thesis by simp
qed

theorem unmatched_pair_selects_empty_primary_witness:
  "\<not> cond_a (Named ''Foo'') (Named ''std::string'') \<and>
   \<not> cond_b (Named ''Foo'') (Named ''std::string'') \<and>
   \<not> cond_c example_traits (Named ''Foo'') (Named ''std::string'') \<and>
   \<not> cond_d (Named ''Foo'') (Named ''std::string'') \<and>
   ServiceTrackerCustomizer2 example_traits (Named ''Foo'') (Named ''std::string'')
     = Inr Primary_template \<and>
   qualified_lookup example_traits (Named ''Foo'') (Named ''std::string'') ''TypeTraits''
     = Inl (no_member_named ''TypeTraits'') \<and>
   qualified_lookup example_traits (Named ''Foo'') (Named ''std::string'')
       ''TrackedReturnType''
     = Inl (no_member_named ''TrackedReturnType'')"
proof -
  have a: "\<not> cond_a (Named ''Foo'') (Named ''std::string'')"
    by (simp add: cond_a_def)
  have b: "\<not> cond_b (Named ''Foo'') (Named ''std::string'')"
    by (simp add: cond_b_def)
  have c: "\<not> cond_c example_traits (Named ''Foo'') (Named ''std::string'')"
    by (simp add: cond_c_def example_traits_def)
  have d: "\<not> cond_d (Named ''Foo'') (Named ''std::string'')"
    by (simp add: cond_d_def)
  have n1: "''TypeTraits'' \<in> set bundle_names"
    by (simp add: bundle_names_def)
  have n2: "''TrackedReturnType'' \<in> set bundle_names"
    by (simp add: bundle_names_def)
  from unmatched_pair_selects_empty_primary [OF a b c d] a b c d n1 n2
  show ?thesis by blast
qed

text \<open>
  C9, as amended. With the tracked type omitted, \<^verbatim>\<open>T\<close> is \<^verbatim>\<open>S*\<close>. For every service type
  but \<^verbatim>\<open>void\<close> this selects variant (b); \<^verbatim>\<open>ServiceTrackerCustomizer<void>\<close> selects variant
  (d). The conversion of either variant returns its argument: the service handle in (b),
  the interface map in (d).
\<close>

theorem single_argument_form_selects_b_or_d:
  "ServiceTrackerCustomizer1 tr S =
     Inr (Specialization (if S = Void then Variant_d else Variant_b)) \<and>
   ConvertToTrackedType_b s = s \<and> ConvertToTrackedType_d im = im"
  by (simp add: ServiceTrackerCustomizer1_def ServiceTrackerCustomizer_def
      explicit_matches_def enable_if_def cond_a_def cond_b_def cond_c_def cond_d_def
      is_same_def ConvertToTrackedType_b_def ConvertToTrackedType_d_def)

text \<open>
  C9 as stated fails for \<^verbatim>\<open>S = void\<close>: the single-argument form selects variant (d), not
  variant (b).
\<close>

theorem single_argument_form_void_not_b:
  "ServiceTrackerCustomizer1 example_traits Void = Inr (Specialization Variant_d) \<and>
   ServiceTrackerCustomizer1 example_traits Void \<noteq> Inr (Specialization Variant_b)"
  by (simp add: ServiceTrackerCustomizer1_def ServiceTrackerCustomizer_def
      explicit_matches_def cond_d_def)

section \<open>The bundles\<close>

text \<open>
  C2. In variants (a) and (c) \<^verbatim>\<open>ConvertToTrackedType\<close> throws, for every argument, a
  \<^verbatim>\<open>std::runtime_error\<close> whose message says that a custom \<^verbatim>\<open>ServiceTrackerCustomizer\<close>
  instance is required. It returns no value, and so never the default value that
  stands for a service that is not tracked.
\<close>

theorem default_conversion_a_c_always_throws:
  "ConvertToTrackedType_a arg = Inl (runtime_error
      ''A custom ServiceTrackerCustomizer instance is required for custom tracked objects.'') \<and>
   (ConvertToTrackedType_c arg :: error + 'T) = Inl (runtime_error
      ''A custom ServiceTrackerCustomizer instance is required for custom tracked objects.'') \<and>
   (\<forall>t. ConvertToTrackedType_a arg \<noteq> Inr t) \<and>
   (\<forall>t::'T. ConvertToTrackedType_c arg \<noteq> Inr t) \<and>
   ConvertToTrackedType_a arg \<noteq> Inr DefaultValue_a \<and>
   ConvertToTrackedType_c arg \<noteq> Inr (DefaultValue_c (ops :: 'T tracked_ops))"
  by (simp add: ConvertToTrackedType_a_def ConvertToTrackedType_c_def)

text \<open>
  C3, as amended. In variants (a), (b) and (d) \<^verbatim>\<open>IsValid(DefaultValue())\<close> is false. In
  variant (c) it is the value to which the default-constructed \<^verbatim>\<open>T\<close> converts, so it is
  false exactly when \<^verbatim>\<open>T()\<close> converts to false.
\<close>

theorem default_value_validity:
  "\<not> IsValid_a DefaultValue_a \<and> \<not> IsValid_b DefaultValue_b \<and> \<not> IsValid_d DefaultValue_d \<and>
   InterfaceMap_empty DefaultValue_d \<and>
   IsValid_c ops (DefaultValue_c ops) = to_bool ops (default_ctor ops)"
  by (simp add: IsValid_a_def DefaultValue_a_def IsValid_b_def DefaultValue_b_def
      IsValid_d_def DefaultValue_d_def InterfaceMap_empty_def InterfaceMap_ctor_def
      IsValid_c_def DefaultValue_c_def)

text \<open>
  C3 as stated fails in variant (c): \<^verbatim>\<open>std::true_type\<close> is not a pointer, has a default
  constructor and converts to \<^verbatim>\<open>bool\<close>, so variant (c) is selected for it, and its
  default-constructed value converts to true.
\<close>

theorem default_value_valid_for_true_type:
  "ServiceTrackerCustomizer2 example_traits (Named ''Foo'') (Named ''std::true_type'')
     = Inr (Specialization Variant_c) \<and>
   IsValid_c true_type_ops (DefaultValue_c true_type_ops)"
  by (simp add: ServiceTrackerCustomizer2_def ServiceTrackerCustomizer_def
      explicit_matches_def enable_if_def cond_a_def cond_b_def cond_c_def cond_d_def
      is_same_def example_traits_def IsValid_c_def true_type_ops_def)

text \<open>
  C4, as amended. In variants (a), (b) and (d) \<^verbatim>\<open>Dispose(t)\<close> leaves in \<^verbatim>\<open>t\<close> the value
  that \<^verbatim>\<open>DefaultValue()\<close> returns. In variant (c) \<^verbatim>\<open>Dispose\<close> does nothing: \<^verbatim>\<open>t\<close> keeps its
  value.
\<close>

theorem dispose_result:
  "Dispose_a t = DefaultValue_a \<and> Dispose_b t = DefaultValue_b \<and>
   Dispose_d m = DefaultValue_d \<and> Dispose_c v = v"
  by (simp add: Dispose_a_def DefaultValue_a_def Dispose_b_def DefaultValue_b_def
      Dispose_d_def DefaultValue_d_def InterfaceMap_clear_def InterfaceMap_ctor_def
      Dispose_c_def)

text \<open>
  C4 as stated fails in variant (c): with \<^verbatim>\<open>T = bool\<close>, selected as variant (c), a tracked
  value \<^verbatim>\<open>true\<close> is still \<^verbatim>\<open>true\<close> after \<^verbatim>\<open>Dispose\<close>, and \<^verbatim>\<open>DefaultValue()\<close> is
  \<^verbatim>\<open>false\<close>.
\<close>

theorem dispose_c_keeps_true:
  "ServiceTrackerCustomizer2 example_traits (Named ''Foo'') (Named ''bool'')
     = Inr (Specialization Variant_c) \<and>
   Dispose_c True \<noteq> DefaultValue_c bool_ops"
  by (simp add: ServiceTrackerCustomizer2_def ServiceTrackerCustomizer_def
      explicit_matches_def enable_if_def cond_a_def cond_b_def cond_c_def cond_d_def
      is_same_def example_traits_def Dispose_c_def DefaultValue_c_def bool_ops_def)

text \<open>
  C5. In variant (b), for every handle \<open>s\<close> other than \<^verbatim>\<open>nullptr\<close>,
  \<^verbatim>\<open>ConvertToTrackedType(s)\<close> is \<open>s\<close> and the result satisfies \<^verbatim>\<open>IsValid\<close>.
\<close>

theorem convert_b_roundtrip:
  assumes "s \<noteq> nullptr"
  shows "ConvertToTrackedType_b s = s \<and> IsValid_b (ConvertToTrackedType_b s)"
  using assms by (simp add: ConvertToTrackedType_b_def IsValid_b_def)

theorem convert_b_roundtrip_witness:
  "Object 7 \<noteq> nullptr \<and> ConvertToTrackedType_b (Object 7) = Object 7 \<and>
   IsValid_b (ConvertToTrackedType_b (Object 7))"
proof -
  have h: "Object 7 \<noteq> nullptr" by simp
  from convert_b_roundtrip [OF h] h show ?thesis by blast
qed

text \<open>
  C6. In variant (d), for every interface map \<open>m\<close>, \<^verbatim>\<open>ConvertToTrackedType(m)\<close> is \<open>m\<close>,
  and \<^verbatim>\<open>IsValid(m)\<close> is true exactly when \<open>m\<close> is not empty.
\<close>

theorem convert_d_identity_and_validity:
  "ConvertToTrackedType_d m = m \<and> IsValid_d m = (\<not> InterfaceMap_empty m) \<and>
   IsValid_d m = (m \<noteq> [])"
  by (simp add: ConvertToTrackedType_d_def IsValid_d_def InterfaceMap_empty_def)

text \<open>
  C7, as amended. In variants (a), (b) and (d) the tracked value equals
  \<^verbatim>\<open>DefaultValue()\<close> after the first call of \<^verbatim>\<open>Dispose\<close> and after the second. In variant
  (c) \<^verbatim>\<open>Dispose\<close> does nothing, so the value is unchanged after one call and after two; a
  value that is \<^verbatim>\<open>DefaultValue()\<close> stays so.
\<close>

theorem dispose_twice:
  "Dispose_a t = DefaultValue_a \<and> Dispose_a (Dispose_a t) = DefaultValue_a \<and>
   Dispose_b t = DefaultValue_b \<and> Dispose_b (Dispose_b t) = DefaultValue_b \<and>
   Dispose_d m = DefaultValue_d \<and> Dispose_d (Dispose_d m) = DefaultValue_d \<and>
   Dispose_c v = v \<and> Dispose_c (Dispose_c v) = v \<and>
   Dispose_c (DefaultValue_c ops) = DefaultValue_c ops \<and>
   Dispose_c (Dispose_c (DefaultValue_c ops)) = DefaultValue_c ops"
  by (simp add: Dispose_a_def DefaultValue_a_def Dispose_b_def DefaultValue_b_def
      Dispose_d_def DefaultValue_d_def InterfaceMap_clear_def InterfaceMap_ctor_def
      Dispose_c_def)

text \<open>
  C7 as stated fails in variant (c): with \<^verbatim>\<open>T = bool\<close> and the tracked value \<^verbatim>\<open>true\<close>, the
  value differs from \<^verbatim>\<open>DefaultValue()\<close> after the first call of \<^verbatim>\<open>Dispose\<close> and after
  the second.
\<close>

theorem dispose_c_twice_keeps_true:
  "Dispose_c True \<noteq> DefaultValue_c bool_ops \<and>
   Dispose_c (Dispose_c True) \<noteq> DefaultValue_c bool_ops"
  by (simp add: Dispose_c_def DefaultValue_c_def bool_ops_def)

text \<open>
  C10. In variant (d) \<^verbatim>\<open>ConvertToTrackedType\<close> returns a copy of the map it is given.
  When the copy is held in an object \<open>r\<close> other than the supplied map \<open>im\<close>,
  \<^verbatim>\<open>Dispose\<close> on \<open>r\<close> empties \<open>r\<close> and leaves the supplied map, and every other object,
  as it was.
\<close>

theorem dispose_of_converted_copy_keeps_original:
  assumes "\<sigma> im = Some m" and "r \<noteq> im"
  shows "ConvertToTrackedType_d_ref im \<sigma> = Some m \<and>
     Dispose_d_ref r (init_from_ConvertToTrackedType_d r im \<sigma>) r = Some DefaultValue_d \<and>
     Dispose_d_ref r (init_from_ConvertToTrackedType_d r im \<sigma>) im = Some m \<and>
     (\<forall>p. p \<noteq> r \<longrightarrow> Dispose_d_ref r (init_from_ConvertToTrackedType_d r im \<sigma>) p = \<sigma> p)"
  using assms
  by (simp add: ConvertToTrackedType_d_ref_def Dispose_d_ref_def
      init_from_ConvertToTrackedType_d_def ConvertToTrackedType_d_def Dispose_d_def
      DefaultValue_d_def InterfaceMap_clear_def InterfaceMap_ctor_def)

theorem dispose_of_converted_copy_keeps_original_witness:
  "example_store 0 = Some [(''IFoo'', Object 3), (''IBar'', Object 3)] \<and> (1::nat) \<noteq> 0 \<and>
   Dispose_d_ref 1 (init_from_ConvertToTrackedType_d 1 0 example_store) 1 = Some [] \<and>
   Dispose_d_ref 1 (init_from_ConvertToTrackedType_d 1 0 example_store) 0
     = Some [(''IFoo'', Object 3), (''IBar'', Object 3)]"
proof -
  have h1: "example_store 0 = Some [(''IFoo'', Object 3), (''IBar'', Object 3)]"
    by (simp add: example_store_def)
  have h2: "(1::nat) \<noteq> 0" by simp
  have e: "DefaultValue_d = []" by (simp add: DefaultValue_d_def InterfaceMap_ctor_def)
  from dispose_of_converted_copy_keeps_original [of example_store 0 _ 1, OF h1 h2] h1 h2
  show ?thesis unfolding e by blast
qed

end
